theory Spec2Isabelle
  imports Complex_Main
begin

section \<open>JavaScript numbers\<close>

text \<open>
  The source computes with JavaScript numbers. They are modelled as the real numbers
  extended by the three special values of IEEE arithmetic that the source relies on
  (\<open>NaN\<close> for failed validation, the infinities for division by zero and \<open>log 0\<close>).
  Finite arithmetic is exact: rounding, overflow, underflow and the sign of zero are not
  part of the model.
\<close>

datatype number = NaN | Fin real | PosInf | NegInf

fun num_neg :: "number \<Rightarrow> number" where
  "num_neg NaN = NaN"
| "num_neg (Fin x) = Fin (- x)"
| "num_neg PosInf = NegInf"
| "num_neg NegInf = PosInf"

fun num_add :: "number \<Rightarrow> number \<Rightarrow> number" where
  "num_add NaN b = NaN"
| "num_add a NaN = NaN"
| "num_add (Fin x) (Fin y) = Fin (x + y)"
| "num_add (Fin x) b = b"
| "num_add a (Fin y) = a"
| "num_add PosInf PosInf = PosInf"
| "num_add NegInf NegInf = NegInf"
| "num_add PosInf NegInf = NaN"
| "num_add NegInf PosInf = NaN"

definition num_sub :: "number \<Rightarrow> number \<Rightarrow> number" where
  "num_sub a b = num_add a (num_neg b)"

text \<open>The sign of an infinite product or quotient: the factor's sign decides.\<close>

definition signed_inf :: "bool \<Rightarrow> number" where
  "signed_inf positive = (if positive then PosInf else NegInf)"

fun num_mul :: "number \<Rightarrow> number \<Rightarrow> number" where
  "num_mul NaN b = NaN"
| "num_mul a NaN = NaN"
| "num_mul (Fin x) (Fin y) = Fin (x * y)"
| "num_mul (Fin x) PosInf = (if x = 0 then NaN else signed_inf (0 < x))"
| "num_mul (Fin x) NegInf = (if x = 0 then NaN else signed_inf (x < 0))"
| "num_mul PosInf (Fin y) = (if y = 0 then NaN else signed_inf (0 < y))"
| "num_mul NegInf (Fin y) = (if y = 0 then NaN else signed_inf (y < 0))"
| "num_mul PosInf PosInf = PosInf"
| "num_mul NegInf NegInf = PosInf"
| "num_mul PosInf NegInf = NegInf"
| "num_mul NegInf PosInf = NegInf"

text \<open>
  Division: a finite non-zero number divided by zero is an infinity, \<open>0 / 0\<close> is NaN.
  The zero divisor is taken as the positive zero.
\<close>

fun num_div :: "number \<Rightarrow> number \<Rightarrow> number" where
  "num_div NaN b = NaN"
| "num_div a NaN = NaN"
| "num_div (Fin x) (Fin y) =
     (if y = 0 then (if x = 0 then NaN else signed_inf (0 < x)) else Fin (x / y))"
| "num_div (Fin x) b = Fin 0"
| "num_div PosInf (Fin y) = signed_inf (0 \<le> y)"
| "num_div NegInf (Fin y) = signed_inf (y < 0)"
| "num_div a b = NaN"

definition trunc :: "real \<Rightarrow> real" where
  "trunc x = (if 0 \<le> x then of_int \<lfloor>x\<rfloor> else of_int \<lceil>x\<rceil>)"

text \<open>The remainder operator \<open>%\<close>: the result has the sign of the dividend.\<close>

fun num_mod :: "number \<Rightarrow> number \<Rightarrow> number" where
  "num_mod (Fin x) (Fin y) = (if y = 0 then NaN else Fin (x - y * trunc (x / y)))"
| "num_mod (Fin x) PosInf = Fin x"
| "num_mod (Fin x) NegInf = Fin x"
| "num_mod a b = NaN"

fun num_lt :: "number \<Rightarrow> number \<Rightarrow> bool" where
  "num_lt (Fin x) (Fin y) = (x < y)"
| "num_lt (Fin x) PosInf = True"
| "num_lt NegInf (Fin y) = True"
| "num_lt NegInf PosInf = True"
| "num_lt a b = False"

definition num_gt :: "number \<Rightarrow> number \<Rightarrow> bool" where
  "num_gt a b = num_lt b a"

text \<open>The comparison \<open>==\<close> of two numbers: NaN equals nothing.\<close>

definition num_eq :: "number \<Rightarrow> number \<Rightarrow> bool" where
  "num_eq a b = (a \<noteq> NaN \<and> a = b)"

definition isNaN :: "number \<Rightarrow> bool" where
  "isNaN a = (a = NaN)"

subsection \<open>The Math object\<close>

definition Math_PI :: number where
  "Math_PI = Fin pi"

definition Math_LOG10E :: number where
  "Math_LOG10E = Fin (1 / ln 10)"

fun Math_abs :: "number \<Rightarrow> number" where
  "Math_abs NaN = NaN"
| "Math_abs (Fin x) = Fin \<bar>x\<bar>"
| "Math_abs a = PosInf"

fun Math_sin :: "number \<Rightarrow> number" where
  "Math_sin (Fin x) = Fin (sin x)"
| "Math_sin a = NaN"

fun Math_cos :: "number \<Rightarrow> number" where
  "Math_cos (Fin x) = Fin (cos x)"
| "Math_cos a = NaN"

text \<open>
  The real tangent has poles where the tangent of a double is a large finite number; the
  model gives the infinity of the sign of the sine there.
\<close>

fun Math_tan :: "number \<Rightarrow> number" where
  "Math_tan (Fin x) = (if cos x = 0 then signed_inf (0 < sin x) else Fin (tan x))"
| "Math_tan a = NaN"

fun Math_asin :: "number \<Rightarrow> number" where
  "Math_asin (Fin x) = (if - 1 \<le> x \<and> x \<le> 1 then Fin (arcsin x) else NaN)"
| "Math_asin a = NaN"

fun Math_acos :: "number \<Rightarrow> number" where
  "Math_acos (Fin x) = (if - 1 \<le> x \<and> x \<le> 1 then Fin (arccos x) else NaN)"
| "Math_acos a = NaN"

fun Math_sqrt :: "number \<Rightarrow> number" where
  "Math_sqrt (Fin x) = (if x < 0 then NaN else Fin (sqrt x))"
| "Math_sqrt PosInf = PosInf"
| "Math_sqrt a = NaN"

fun Math_log :: "number \<Rightarrow> number" where
  "Math_log (Fin x) = (if x < 0 then NaN else if x = 0 then NegInf else Fin (ln x))"
| "Math_log PosInf = PosInf"
| "Math_log a = NaN"

fun Math_ceil :: "number \<Rightarrow> number" where
  "Math_ceil (Fin x) = Fin (of_int \<lceil>x\<rceil>)"
| "Math_ceil a = a"

text \<open>\<open>Math.pow(10, e)\<close>, the only use of \<open>Math.pow\<close> in the source.\<close>

fun Math_pow10 :: "number \<Rightarrow> number" where
  "Math_pow10 NaN = NaN"
| "Math_pow10 (Fin e) = Fin (10 powr e)"
| "Math_pow10 PosInf = PosInf"
| "Math_pow10 NegInf = Fin 0"

text \<open>The angle of the point \<open>(x, y)\<close>, in \<open>(-pi, pi]\<close>, for finite arguments.\<close>

definition atan2_real :: "real \<Rightarrow> real \<Rightarrow> real" where
  "atan2_real y x =
     (if 0 < x then arctan (y / x)
      else if x < 0 then (if 0 \<le> y then arctan (y / x) + pi else arctan (y / x) - pi)
      else if 0 < y then pi / 2
      else if y < 0 then - (pi / 2)
      else 0)"

fun Math_atan2 :: "number \<Rightarrow> number \<Rightarrow> number" where
  "Math_atan2 NaN x = NaN"
| "Math_atan2 y NaN = NaN"
| "Math_atan2 (Fin y) (Fin x) = Fin (atan2_real y x)"
| "Math_atan2 (Fin y) PosInf = Fin 0"
| "Math_atan2 (Fin y) NegInf = (if 0 \<le> y then Fin pi else Fin (- pi))"
| "Math_atan2 PosInf (Fin x) = Fin (pi / 2)"
| "Math_atan2 NegInf (Fin x) = Fin (- (pi / 2))"
| "Math_atan2 PosInf PosInf = Fin (pi / 4)"
| "Math_atan2 PosInf NegInf = Fin (3 * pi / 4)"
| "Math_atan2 NegInf PosInf = Fin (- (pi / 4))"
| "Math_atan2 NegInf NegInf = Fin (- (3 * pi / 4))"

subsection \<open>Number.prototype.toRad and Number.prototype.toDeg\<close>

definition toRad :: "number \<Rightarrow> number" where
  "toRad this = num_div (num_mul this Math_PI) (Fin 180)"

definition toDeg :: "number \<Rightarrow> number" where
  "toDeg this = num_div (num_mul this (Fin 180)) Math_PI"

section \<open>JavaScript values, strings and conversions\<close>

text \<open>
  The arguments of the constructor and of the operations are arbitrary JavaScript values;
  the primitive ones are modelled. Strings are lists of ASCII characters.
\<close>

datatype jsval = VUndefined | VNull | VBool bool | VNum number | VStr string

datatype jstype = TUndefined | TObject | TBoolean | TNumber | TString

fun typeof :: "jsval \<Rightarrow> jstype" where
  "typeof VUndefined = TUndefined"
| "typeof VNull = TObject"
| "typeof (VBool b) = TBoolean"
| "typeof (VNum n) = TNumber"
| "typeof (VStr s) = TString"

datatype error = ReferenceError | TypeError

definition is_space :: "char \<Rightarrow> bool" where
  "is_space c = (c \<in> set [CHR 0x09, CHR 0x0A, CHR 0x0B, CHR 0x0C, CHR 0x0D, CHR '' ''])"

text \<open>\<open>String.prototype.trim\<close>, native or as the source defines it when it is missing.\<close>

definition String_trim :: "string \<Rightarrow> string" where
  "String_trim s = rev (dropWhile is_space (rev (dropWhile is_space s)))"

definition digit_table :: "(char \<times> nat) list" where
  "digit_table =
     [(CHR ''0'', 0), (CHR ''1'', 1), (CHR ''2'', 2), (CHR ''3'', 3), (CHR ''4'', 4),
      (CHR ''5'', 5), (CHR ''6'', 6), (CHR ''7'', 7), (CHR ''8'', 8), (CHR ''9'', 9),
      (CHR ''a'', 10), (CHR ''b'', 11), (CHR ''c'', 12), (CHR ''d'', 13), (CHR ''e'', 14),
      (CHR ''f'', 15), (CHR ''A'', 10), (CHR ''B'', 11), (CHR ''C'', 12), (CHR ''D'', 13),
      (CHR ''E'', 14), (CHR ''F'', 15)]"

definition digit_value :: "nat \<Rightarrow> char \<Rightarrow> nat option" where
  "digit_value radix c =
     (case map_of digit_table c of
        None \<Rightarrow> None
      | Some d \<Rightarrow> if d < radix then Some d else None)"

definition is_digit :: "nat \<Rightarrow> char \<Rightarrow> bool" where
  "is_digit radix c = (digit_value radix c \<noteq> None)"

definition digits_value :: "nat \<Rightarrow> string \<Rightarrow> nat" where
  "digits_value radix ds =
     foldl (\<lambda>a c. radix * a + (case digit_value radix c of None \<Rightarrow> 0 | Some d \<Rightarrow> d)) 0 ds"

text \<open>
  The numeric literals of strings (\<open>StrDecimalLiteral\<close> of the language definition): an
  optional sign, then \<open>Infinity\<close> or digits with an optional fraction and an optional
  exponent. Each scanner returns the value of the longest literal that starts the string,
  and the rest of the string.
\<close>

definition scan_exponent :: "string \<Rightarrow> (int \<times> string) option" where
  "scan_exponent s =
     (case s of
        [] \<Rightarrow> None
      | c # t \<Rightarrow>
          if c = CHR ''e'' \<or> c = CHR ''E'' then
            (let negative = (t \<noteq> [] \<and> hd t = CHR ''-'');
                 u = (if t \<noteq> [] \<and> (hd t = CHR ''+'' \<or> hd t = CHR ''-'') then tl t else t);
                 ds = takeWhile (is_digit 10) u
             in if ds = [] then None
                else Some ((if negative then - 1 else 1) * int (digits_value 10 ds),
                           dropWhile (is_digit 10) u))
          else None)"

definition scan_unsigned :: "string \<Rightarrow> (number \<times> string) option" where
  "scan_unsigned s =
     (if take 8 s = ''Infinity'' then Some (PosInf, drop 8 s)
      else
        let ip = takeWhile (is_digit 10) s;
            r1 = dropWhile (is_digit 10) s;
            has_dot = (r1 \<noteq> [] \<and> hd r1 = CHR ''.'');
            fp = (if has_dot then takeWhile (is_digit 10) (tl r1) else []);
            r2 = (if has_dot then dropWhile (is_digit 10) (tl r1) else r1)
        in if ip = [] \<and> fp = [] then None
           else
             let mant = real (digits_value 10 ip) + real (digits_value 10 fp) / 10 ^ length fp
             in (case scan_exponent r2 of
                   None \<Rightarrow> Some (Fin mant, r2)
                 | Some (e, r3) \<Rightarrow> Some (Fin (mant * 10 powr real_of_int e), r3)))"

definition scan_signed :: "string \<Rightarrow> (number \<times> string) option" where
  "scan_signed s =
     (case s of
        [] \<Rightarrow> None
      | c # t \<Rightarrow>
          if c = CHR ''+'' then scan_unsigned t
          else if c = CHR ''-'' then
            (case scan_unsigned t of None \<Rightarrow> None | Some (v, r) \<Rightarrow> Some (num_neg v, r))
          else scan_unsigned s)"

text \<open>Literals with a radix prefix: \<open>0x\<close>, \<open>0o\<close>, \<open>0b\<close> in either case.\<close>

definition radix_prefix :: "string \<Rightarrow> (nat \<times> string) option" where
  "radix_prefix t =
     (case t of
        c0 # c1 # ds \<Rightarrow>
          if c0 \<noteq> CHR ''0'' then None
          else if c1 = CHR ''x'' \<or> c1 = CHR ''X'' then Some (16, ds)
          else if c1 = CHR ''o'' \<or> c1 = CHR ''O'' then Some (8, ds)
          else if c1 = CHR ''b'' \<or> c1 = CHR ''B'' then Some (2, ds)
          else None
      | _ \<Rightarrow> None)"

text \<open>
  The conversion of a string to a number (unary \<open>+\<close>): the whole trimmed string has to be a
  literal; the empty string is 0.
\<close>

definition StringToNumber :: "string \<Rightarrow> number" where
  "StringToNumber s =
     (let t = String_trim s
      in if t = [] then Fin 0
         else (case radix_prefix t of
                 Some (radix, ds) \<Rightarrow>
                   if ds \<noteq> [] \<and> list_all (is_digit radix) ds
                   then Fin (real (digits_value radix ds)) else NaN
               | None \<Rightarrow>
                   (case scan_signed t of
                      Some (v, []) \<Rightarrow> v
                    | _ \<Rightarrow> NaN)))"

fun ToNumber :: "jsval \<Rightarrow> number" where
  "ToNumber VUndefined = NaN"
| "ToNumber VNull = Fin 0"
| "ToNumber (VBool b) = Fin (if b then 1 else 0)"
| "ToNumber (VNum n) = n"
| "ToNumber (VStr s) = StringToNumber s"

text \<open>
  \<open>parseFloat\<close> converts its argument to a string, skips leading white space and reads the
  longest literal that starts the rest. The string of a number reads back as that number;
  the strings of \<open>undefined\<close>, \<open>null\<close>, \<open>true\<close> and \<open>false\<close> start with no literal.
\<close>

fun parseFloat :: "jsval \<Rightarrow> number" where
  "parseFloat (VNum n) = n"
| "parseFloat (VStr s) =
     (case scan_signed (dropWhile is_space s) of None \<Rightarrow> NaN | Some (v, r) \<Rightarrow> v)"
| "parseFloat v = NaN"

subsection \<open>Numbers to strings\<close>

fun nat_digits :: "nat \<Rightarrow> string" where
  "nat_digits n =
     (if n < 10 then [''0123456789'' ! n]
      else nat_digits (n div 10) @ [''0123456789'' ! (n mod 10)])"

declare nat_digits.simps [simp del]

text \<open>
  The string of an integral number: its decimal digits below \<open>10^21\<close>, and from there
  on the digits without the trailing zeros, a point after the first one, and the exponent.
\<close>

definition exponent_form :: "string \<Rightarrow> string" where
  "exponent_form ds =
     (let m = rev (dropWhile (\<lambda>c. c = CHR ''0'') (rev ds))
      in (if length m \<le> 1 then m else hd m # CHR ''.'' # tl m)
         @ ''e+'' @ nat_digits (length ds - 1))"

definition int_to_string :: "int \<Rightarrow> string" where
  "int_to_string k =
     (let ds = nat_digits (nat \<bar>k\<bar>)
      in (if k < 0 then ''-'' else [])
         @ (if length ds \<le> 21 then ds else exponent_form ds))"

text \<open>\<open>String(Math.round(x))\<close>: \<open>Math.round\<close> rounds halves up.\<close>

fun String_Math_round :: "number \<Rightarrow> string" where
  "String_Math_round NaN = ''NaN''"
| "String_Math_round (Fin x) = int_to_string \<lfloor>x + 1 / 2\<rfloor>"
| "String_Math_round PosInf = ''Infinity''"
| "String_Math_round NegInf = ''-Infinity''"

text \<open>
  \<open>String.prototype.slice\<close>: an index is truncated to an integer, a negative one counts
  from the end, and both are clamped to the string.
\<close>

fun slice_index :: "nat \<Rightarrow> number \<Rightarrow> nat" where
  "slice_index len NaN = 0"
| "slice_index len (Fin x) =
     (if x < 0 then nat (int len + \<lceil>x\<rceil>) else min (nat \<lfloor>x\<rfloor>) len)"
| "slice_index len PosInf = len"
| "slice_index len NegInf = 0"

definition String_slice :: "string \<Rightarrow> number \<Rightarrow> number option \<Rightarrow> string" where
  "String_slice s start stop =
     (let from = slice_index (length s) start;
          to = (case stop of None \<Rightarrow> length s | Some e \<Rightarrow> slice_index (length s) e)
      in take (to - from) (drop from s))"

section \<open>Number.prototype.toPrecisionFixed\<close>

text \<open>
  The precision is a number of digits, a natural number. The three loops of the source:
  \<open>while (precision--) n += '0'\<close> counts the precision down to zero;
  \<open>while (l-- > 0) n = n + '0'\<close> and \<open>while (scale++ < 0) n = '0' + n\<close> count a number
  that can be infinite, and then do not end: they return \<open>None\<close>.
\<close>

fun zero_fill :: "nat \<Rightarrow> string \<Rightarrow> string" where
  "zero_fill 0 n = n"
| "zero_fill (Suc precision) n = zero_fill precision (n @ ''0'')"

partial_function (option) append_zeros :: "number \<Rightarrow> string \<Rightarrow> string option" where
  "append_zeros l n =
     (if num_gt l (Fin 0) then append_zeros (num_sub l (Fin 1)) (n @ ''0'') else Some n)"

partial_function (option) prepend_zeros :: "number \<Rightarrow> string \<Rightarrow> string option" where
  "prepend_zeros scale n =
     (if num_lt scale (Fin 0) then prepend_zeros (num_add scale (Fin 1)) (''0'' @ n)
      else Some n)"

definition toPrecisionFixed :: "number \<Rightarrow> nat \<Rightarrow> string option" where
  "toPrecisionFixed this precision =
     (if isNaN this then Some ''NaN''
      else
        let numb = (if num_lt this (Fin 0) then num_neg this else this);
            sign = (if num_lt this (Fin 0) then ''-'' else [])
        in if num_eq numb (Fin 0) then Some (zero_fill precision ''0.'')
           else
             let scale = Math_ceil (num_mul (Math_log numb) Math_LOG10E);
                 n = String_Math_round
                       (num_mul numb (Math_pow10 (num_sub (Fin (real precision)) scale)))
             in if num_gt scale (Fin 0) then
                  (case append_zeros (num_sub scale (Fin (real (length n)))) n of
                     None \<Rightarrow> None
                   | Some n1 \<Rightarrow>
                       Some (sign @
                         (if num_lt scale (Fin (real (length n1)))
                          then String_slice n1 (Fin 0) (Some scale) @ ''.''
                                 @ String_slice n1 scale None
                          else n1)))
                else
                  (case prepend_zeros scale n of
                     None \<Rightarrow> None
                   | Some n1 \<Rightarrow> Some (sign @ ''0.'' @ n1)))"

section \<open>The point type and its constructor\<close>

text \<open>
  An object made by \<open>LngLat\<close> has the fields \<open>_lat\<close>, \<open>_lon\<close> and \<open>_radius\<close>. The
  constructor always stores a number in \<open>_lat\<close> and in \<open>_radius\<close>; what it stores in
  \<open>_lon\<close> can be any value (see \<open>LngLat\<close> below), so that field is a \<open>jsval\<close>.
\<close>

record lnglat =
  f_lat :: number
  f_lon :: jsval
  f_radius :: number

text \<open>
  The validation idiom
  \<open>typeof(v)=='number' ? v : typeof(v)=='string' && v.trim()!='' ? +v : NaN\<close>.
\<close>

fun numeric_arg :: "jsval \<Rightarrow> number" where
  "numeric_arg (VNum x) = x"
| "numeric_arg (VStr s) = (if String_trim s \<noteq> [] then StringToNumber s else NaN)"
| "numeric_arg v = NaN"

text \<open>
  The same idiom written with a call of a function \<open>trim\<close>, as in
  \<open>typeof(v)=='number' ? v : typeof(v)=='string' && trim(w)!='' ? +v : NaN\<close>.
  The source declares no function \<open>trim\<close> (it only provides the method
  \<open>String.prototype.trim\<close>), so the call, reached when \<open>v\<close> is a string, raises a
  ReferenceError.
\<close>

fun numeric_arg_trim_call :: "jsval \<Rightarrow> error + number" where
  "numeric_arg_trim_call (VNum x) = Inr x"
| "numeric_arg_trim_call (VStr s) = Inl ReferenceError"
| "numeric_arg_trim_call v = Inr NaN"

text \<open>
  \<open>new LngLat(lon, lat, rad)\<close>. The line for \<open>_lon\<close> tests the type of \<open>lat\<close>: when
  \<open>lat\<close> is a number, \<open>lon\<close> is stored as it is.
\<close>

definition LngLat :: "jsval \<Rightarrow> jsval \<Rightarrow> jsval \<Rightarrow> error + lnglat" where
  "LngLat lon lat rad0 =
     (let rad = (if typeof rad0 = TUndefined then VNum (Fin 6371) else rad0);
          the_lat = numeric_arg lat;
          the_lon = (if typeof lat = TNumber then lon
                     else (case lon of
                             VStr s \<Rightarrow>
                               VNum (if String_trim s \<noteq> [] then StringToNumber s else NaN)
                           | _ \<Rightarrow> VNum NaN))
      in case numeric_arg_trim_call rad of
           Inl e \<Rightarrow> Inl e
         | Inr the_radius \<Rightarrow>
             Inr \<lparr>f_lat = the_lat, f_lon = the_lon, f_radius = the_radius\<rparr>)"

text \<open>
  The call \<open>v.toRad()\<close>: only numbers have the method. On \<open>undefined\<close> and \<open>null\<close> the
  property access raises a TypeError; on a boolean or a string the property is undefined
  and the call raises a TypeError.
\<close>

fun send_toRad :: "jsval \<Rightarrow> error + number" where
  "send_toRad (VNum x) = Inr (toRad x)"
| "send_toRad v = Inl TypeError"

section \<open>Great-circle formulas\<close>

text \<open>An absent \<open>precision\<close> argument is \<open>None\<close>.\<close>

definition distanceTo :: "lnglat \<Rightarrow> lnglat \<Rightarrow> nat option \<Rightarrow> error + string option" where
  "distanceTo this point precision0 =
     (let precision = (case precision0 of None \<Rightarrow> 4 | Some p \<Rightarrow> p);
          R = f_radius this;
          lat1 = toRad (f_lat this)
      in case send_toRad (f_lon this) of
           Inl e \<Rightarrow> Inl e
         | Inr lon1 \<Rightarrow>
             let lat2 = toRad (f_lat point)
             in (case send_toRad (f_lon point) of
                   Inl e \<Rightarrow> Inl e
                 | Inr lon2 \<Rightarrow>
                     let dLat = num_sub lat2 lat1;
                         dLon = num_sub lon2 lon1;
                         a = num_add
                               (num_mul (Math_sin (num_div dLat (Fin 2)))
                                        (Math_sin (num_div dLat (Fin 2))))
                               (num_mul
                                  (num_mul (num_mul (Math_cos lat1) (Math_cos lat2))
                                           (Math_sin (num_div dLon (Fin 2))))
                                  (Math_sin (num_div dLon (Fin 2))));
                         c = num_mul (Fin 2)
                               (Math_atan2 (Math_sqrt a) (Math_sqrt (num_sub (Fin 1) a)));
                         d = num_mul R c
                     in Inr (toPrecisionFixed d precision)))"

definition bearingTo :: "lnglat \<Rightarrow> lnglat \<Rightarrow> number" where
  "bearingTo this point =
     (let lat1 = toRad (f_lat this);
          lat2 = toRad (f_lat point);
          dLon = toRad (num_sub (ToNumber (f_lon point)) (ToNumber (f_lon this)));
          y = num_mul (Math_sin dLon) (Math_cos lat2);
          x = num_sub (num_mul (Math_cos lat1) (Math_sin lat2))
                (num_mul (num_mul (Math_sin lat1) (Math_cos lat2)) (Math_cos dLon));
          brng = Math_atan2 y x
      in num_mod (num_add (toDeg brng) (Fin 360)) (Fin 360))"

definition midpointTo :: "lnglat \<Rightarrow> lnglat \<Rightarrow> error + lnglat" where
  "midpointTo this point =
     (let lat1 = toRad (f_lat this)
      in case send_toRad (f_lon this) of
           Inl e \<Rightarrow> Inl e
         | Inr lon1 \<Rightarrow>
             let lat2 = toRad (f_lat point);
                 dLon = toRad (num_sub (ToNumber (f_lon point)) (ToNumber (f_lon this)));
                 Bx = num_mul (Math_cos lat2) (Math_cos dLon);
                 By = num_mul (Math_cos lat2) (Math_sin dLon);
                 lat3 = Math_atan2 (num_add (Math_sin lat1) (Math_sin lat2))
                          (Math_sqrt
                             (num_add
                                (num_mul (num_add (Math_cos lat1) Bx) (num_add (Math_cos lat1) Bx))
                                (num_mul By By)));
                 lon3 = num_add lon1 (Math_atan2 By (num_add (Math_cos lat1) Bx))
             in LngLat (VNum (toDeg lon3)) (VNum (toDeg lat3)) VUndefined)"

definition destinationPoint :: "lnglat \<Rightarrow> jsval \<Rightarrow> jsval \<Rightarrow> error + lnglat" where
  "destinationPoint this brng0 dist0 =
     (let dist1 = numeric_arg dist0;
          dist = num_div dist1 (f_radius this)
      in case send_toRad brng0 of
           Inl e \<Rightarrow> Inl e
         | Inr brng \<Rightarrow>
             let lat1 = toRad (f_lat this)
             in (case send_toRad (f_lon this) of
                   Inl e \<Rightarrow> Inl e
                 | Inr lon1 \<Rightarrow>
                     let lat2 = Math_asin
                                  (num_add (num_mul (Math_sin lat1) (Math_cos dist))
                                     (num_mul (num_mul (Math_cos lat1) (Math_sin dist))
                                        (Math_cos brng)));
                         lon2 = num_add lon1
                                  (Math_atan2
                                     (num_mul (num_mul (Math_sin brng) (Math_sin dist))
                                        (Math_cos lat1))
                                     (num_sub (Math_cos dist)
                                        (num_mul (Math_sin lat1) (Math_sin lat2))));
                         lon2n = num_sub
                                   (num_mod (num_add lon2 (num_mul (Fin 3) Math_PI))
                                      (num_mul (Fin 2) Math_PI))
                                   Math_PI
                     in LngLat (VNum (toDeg lon2n)) (VNum (toDeg lat2)) VUndefined))"

subsection \<open>Intersection of two paths\<close>

text \<open>
  The body of \<open>LngLat.intersection\<close> in the order of the source: the angular distance
  \<open>dist12\<close> of the two points, the angles \<open>alpha1\<close> and \<open>alpha2\<close> between the paths and the
  line that joins the points, and the point the function returns when it does not return
  \<open>null\<close>. All arguments are in radians. The tests of the source compare doubles;
  here they compare exact numbers, and the two differ where a double is only close to
  zero: in doubles the sine of \<open>Math.PI\<close> is not zero. The properties below use the error
  paths of \<open>intersection\<close> only.
\<close>

definition intersection_dist12 :: "number \<Rightarrow> number \<Rightarrow> number \<Rightarrow> number \<Rightarrow> number" where
  "intersection_dist12 lat1 lon1 lat2 lon2 =
     (let dLat = num_sub lat2 lat1;
          dLon = num_sub lon2 lon1
      in num_mul (Fin 2)
           (Math_asin
              (Math_sqrt
                 (num_add
                    (num_mul (Math_sin (num_div dLat (Fin 2)))
                             (Math_sin (num_div dLat (Fin 2))))
                    (num_mul
                       (num_mul (num_mul (Math_cos lat1) (Math_cos lat2))
                                (Math_sin (num_div dLon (Fin 2))))
                       (Math_sin (num_div dLon (Fin 2))))))))"

definition intersection_alphas ::
  "number \<Rightarrow> number \<Rightarrow> number \<Rightarrow> number \<Rightarrow> number \<Rightarrow> number \<Rightarrow> number \<times> number" where
  "intersection_alphas lat1 lon1 lat2 lon2 brng13 brng23 =
     (let dist12 = intersection_dist12 lat1 lon1 lat2 lon2;
          brngA0 = Math_acos
                     (num_div
                        (num_sub (Math_sin lat2) (num_mul (Math_sin lat1) (Math_cos dist12)))
                        (num_mul (Math_sin dist12) (Math_cos lat1)));
          brngA = (if isNaN brngA0 then Fin 0 else brngA0);
          brngB = Math_acos
                    (num_div
                       (num_sub (Math_sin lat1) (num_mul (Math_sin lat2) (Math_cos dist12)))
                       (num_mul (Math_sin dist12) (Math_cos lat2)));
          two_pi = num_mul (Fin 2) Math_PI;
          brng12 = (if num_gt (Math_sin (num_sub lon2 lon1)) (Fin 0)
                    then brngA else num_sub two_pi brngA);
          brng21 = (if num_gt (Math_sin (num_sub lon2 lon1)) (Fin 0)
                    then num_sub two_pi brngB else brngB);
          alpha1 = num_sub (num_mod (num_add (num_sub brng13 brng12) Math_PI) two_pi) Math_PI;
          alpha2 = num_sub (num_mod (num_add (num_sub brng21 brng23) Math_PI) two_pi) Math_PI
      in (alpha1, alpha2))"

definition intersection_point ::
  "number \<Rightarrow> number \<Rightarrow> number \<Rightarrow> number \<Rightarrow> number \<Rightarrow> number \<Rightarrow> error + lnglat" where
  "intersection_point lat1 lon1 brng13 dist12 alpha1 alpha2 =
     (let alpha3 = Math_acos
                     (num_add
                        (num_mul (num_neg (Math_cos alpha1)) (Math_cos alpha2))
                        (num_mul (num_mul (Math_sin alpha1) (Math_sin alpha2))
                           (Math_cos dist12)));
          dist13 = Math_atan2
                     (num_mul (num_mul (Math_sin dist12) (Math_sin alpha1)) (Math_sin alpha2))
                     (num_add (Math_cos alpha2) (num_mul (Math_cos alpha1) (Math_cos alpha3)));
          lat3 = Math_asin
                   (num_add (num_mul (Math_sin lat1) (Math_cos dist13))
                      (num_mul (num_mul (Math_cos lat1) (Math_sin dist13)) (Math_cos brng13)));
          dLon13 = Math_atan2
                     (num_mul (num_mul (Math_sin brng13) (Math_sin dist13)) (Math_cos lat1))
                     (num_sub (Math_cos dist13) (num_mul (Math_sin lat1) (Math_sin lat3)));
          lon3 = num_add lon1 dLon13;
          lon3n = num_sub (num_mod (num_add lon3 Math_PI) (num_mul (Fin 2) Math_PI)) Math_PI
      in LngLat (VNum (toDeg lon3n)) (VNum (toDeg lat3)) VUndefined)"

text \<open>The result \<open>Inr None\<close> is the \<open>null\<close> of the source.\<close>

definition intersection ::
  "lnglat \<Rightarrow> jsval \<Rightarrow> lnglat \<Rightarrow> jsval \<Rightarrow> error + lnglat option" where
  "intersection p1 brng1_0 p2 brng2_0 =
     (case numeric_arg_trim_call brng1_0 of
        Inl e \<Rightarrow> Inl e
      | Inr brng1 \<Rightarrow>
     (case numeric_arg_trim_call brng2_0 of
        Inl e \<Rightarrow> Inl e
      | Inr brng2 \<Rightarrow>
     (case send_toRad (f_lon p1) of
        Inl e \<Rightarrow> Inl e
      | Inr lon1 \<Rightarrow>
     (case send_toRad (f_lon p2) of
        Inl e \<Rightarrow> Inl e
      | Inr lon2 \<Rightarrow>
          let lat1 = toRad (f_lat p1);
              lat2 = toRad (f_lat p2);
              brng13 = toRad brng1;
              brng23 = toRad brng2;
              dist12 = intersection_dist12 lat1 lon1 lat2 lon2
          in if num_eq dist12 (Fin 0) then Inr None
             else
               let (alpha1, alpha2) = intersection_alphas lat1 lon1 lat2 lon2 brng13 brng23
               in if num_eq (Math_sin alpha1) (Fin 0) \<and> num_eq (Math_sin alpha2) (Fin 0)
                  then Inr None
                  else if num_lt (num_mul (Math_sin alpha1) (Math_sin alpha2)) (Fin 0)
                  then Inr None
                  else (case intersection_point lat1 lon1 brng13 dist12 alpha1 alpha2 of
                          Inl e \<Rightarrow> Inl e
                        | Inr p3 \<Rightarrow> Inr (Some p3))))))"

section \<open>Rhumb-line formulas\<close>


definition rhumbDestinationPoint :: "lnglat \<Rightarrow> jsval \<Rightarrow> jsval \<Rightarrow> error + lnglat" where
  "rhumbDestinationPoint this brng0 dist0 =
     (let R = f_radius this;
          d = num_div (parseFloat dist0) R;
          lat1 = toRad (f_lat this)
      in case send_toRad (f_lon this) of
           Inl e \<Rightarrow> Inl e
         | Inr lon1 \<Rightarrow>
             (case send_toRad brng0 of
                Inl e \<Rightarrow> Inl e
              | Inr brng \<Rightarrow>
                  let lat2 = num_add lat1 (num_mul d (Math_cos brng));
                      dLat = num_sub lat2 lat1;
                      dPhi = Math_log
                               (num_div
                                  (Math_tan
                                     (num_add (num_div lat2 (Fin 2)) (num_div Math_PI (Fin 4))))
                                  (Math_tan
                                     (num_add (num_div lat1 (Fin 2)) (num_div Math_PI (Fin 4)))));
                      q = (if \<not> isNaN (num_div dLat dPhi) then num_div dLat dPhi
                           else Math_cos lat1);
                      dLon = num_div (num_mul d (Math_sin brng)) q;
                      lat2r = (if num_gt (Math_abs lat2) (num_div Math_PI (Fin 2))
                               then (if num_gt lat2 (Fin 0) then num_sub Math_PI lat2
                                     else num_neg (num_sub Math_PI lat2))
                               else lat2);
                      lon2 = num_sub
                               (num_mod
                                  (num_add (num_add lon1 dLon) (num_mul (Fin 3) Math_PI))
                                  (num_mul (Fin 2) Math_PI))
                               Math_PI
                  in LngLat (VNum (toDeg lon2)) (VNum (toDeg lat2r)) VUndefined))"

section \<open>Notions used by the properties\<close>


section \<open>Properties\<close>

subsection \<open>The loops of toPrecisionFixed\<close>

lemma zero_fill_eq: "zero_fill p n = n @ replicate p (CHR ''0'')"
  by (induction p arbitrary: n) (simp_all add: replicate_app_Cons_same)

text \<open>On a finite counter both counting loops end, after as many rounds as the counter says.\<close>

lemma append_zeros_Fin:
  "append_zeros (Fin r) n = Some (n @ replicate (nat \<lceil>r\<rceil>) (CHR ''0''))"
proof (induction "nat \<lceil>r\<rceil>" arbitrary: r n)
  case 0
  then have "r \<le> 0" by (simp add: ceiling_le_zero)
  then show ?case using 0 by (subst append_zeros.simps) (simp add: num_gt_def)
next
  case (Suc m)
  then have pos: "0 < r" by (metis Zero_not_Suc ceiling_le_zero nat_le_0 not_le)
  have "m = nat \<lceil>r - 1\<rceil>" using Suc(2) by simp
  from Suc(1)[OF this, of "n @ ''0''"] Suc(2) pos show ?case
    by (subst append_zeros.simps)
       (simp add: num_gt_def num_sub_def replicate_app_Cons_same flip: replicate_Suc)
qed

lemma prepend_zeros_Fin:
  "prepend_zeros (Fin r) n = Some (replicate (nat \<lceil>- r\<rceil>) (CHR ''0'') @ n)"
proof (induction "nat \<lceil>- r\<rceil>" arbitrary: r n)
  case 0
  then have "0 \<le> r" by (simp add: ceiling_le_zero)
  then show ?case using 0 by (subst prepend_zeros.simps) simp
next
  case (Suc m)
  then have neg: "r < 0"
    by (metis Zero_not_Suc ceiling_le_zero nat_le_0 not_le neg_le_0_iff_le)
  have "m = nat \<lceil>- (r + 1)\<rceil>" using Suc(2) by simp
  from Suc(1)[OF this, of "''0'' @ n"] Suc(2) neg show ?case
    by (subst prepend_zeros.simps)
       (simp add: replicate_app_Cons_same flip: replicate_Suc)
qed

subsection \<open>The constructor\<close>

lemmas scan_defs =
  StringToNumber_def String_trim_def is_space_def radix_prefix_def scan_signed_def
  scan_unsigned_def is_digit_def digit_value_def digit_table_def scan_exponent_def
  digits_value_def

lemma LngLat_numbers:
  "LngLat (VNum x) (VNum y) VUndefined
   = Inr \<lparr>f_lat = y, f_lon = VNum x, f_radius = Fin 6371\<rparr>"
  by (simp add: LngLat_def)

text \<open>
  C2, the behaviour of the code at the failing input: the call \<open>new LngLat(5, "10")\<close>, a
  numeric longitude with a string latitude, stores NaN as the longitude, not 5, because
  the line for \<open>_lon\<close> tests \<open>typeof(lat)\<close>.
\<close>

theorem LngLat_numeric_lon_string_lat:
  "LngLat (VNum (Fin 5)) (VStr ''10'') VUndefined
   = Inr \<lparr>f_lat = Fin 10, f_lon = VNum NaN, f_radius = Fin 6371\<rparr>"
  by (simp add: LngLat_def scan_defs)

text \<open>
  C3, the behaviour of the code at the failing inputs: a string radius makes the
  constructor raise a ReferenceError, and a string bearing makes \<open>intersection\<close> raise
  one, whatever the other arguments are.
\<close>

theorem string_argument_raises:
  "LngLat lon lat (VStr s) = Inl ReferenceError
   \<and> intersection p1 (VStr s) p2 brng2 = Inl ReferenceError
   \<and> intersection p1 (VNum b) p2 (VStr s) = Inl ReferenceError"
  by (simp add: LngLat_def intersection_def)

subsection \<open>distanceTo of a point to itself\<close>

text \<open>
  C1 as stated fails: the distance of the sample point of the source to itself is not the
  string \<open>0.000\<close>.
\<close>

theorem distanceTo_self_counterexample:
  "distanceTo \<lparr>f_lat = Fin 51.5136, f_lon = VNum (Fin (- 0.0983)), f_radius = Fin 6371\<rparr>
     \<lparr>f_lat = Fin 51.5136, f_lon = VNum (Fin (- 0.0983)), f_radius = Fin 6371\<rparr> None
   \<noteq> Inr (Some ''0.000'')"
  by (simp add: distanceTo_def toRad_def Math_PI_def num_sub_def atan2_real_def
      toPrecisionFixed_def isNaN_def num_eq_def zero_fill_eq eval_nat_numeral)

text \<open>
  C1 (amended): for every point whose latitude, longitude and radius are finite numbers,
  \<open>p.distanceTo(p)\<close> with the default precision returns the string \<open>0.0000\<close>: the zero
  branch of toPrecisionFixed writes \<open>0.\<close> and as many zeros as the precision says.
\<close>

theorem distanceTo_self:
  assumes "f_lat p = Fin la" and "f_lon p = VNum (Fin lo)" and "f_radius p = Fin r"
  shows "distanceTo p p None = Inr (Some ''0.0000'')"
  using assms
  by (simp add: distanceTo_def toRad_def Math_PI_def num_sub_def atan2_real_def
      toPrecisionFixed_def isNaN_def num_eq_def zero_fill_eq eval_nat_numeral)

theorem distanceTo_self_witness:
  "distanceTo \<lparr>f_lat = Fin 51.5136, f_lon = VNum (Fin (- 0.0983)), f_radius = Fin 6371\<rparr>
     \<lparr>f_lat = Fin 51.5136, f_lon = VNum (Fin (- 0.0983)), f_radius = Fin 6371\<rparr> None
   = Inr (Some ''0.0000'')"
  using distanceTo_self
    [of "\<lparr>f_lat = Fin 51.5136, f_lon = VNum (Fin (- 0.0983)), f_radius = Fin 6371\<rparr>"
        "51.5136" "- 0.0983" 6371]
  by simp

subsection \<open>The radius of a computed point\<close>

text \<open>
  C4 as stated fails: the midpoint computed from a point of radius 1000 does not have
  radius 1000.
\<close>

theorem midpointTo_radius_counterexample:
  "map_sum id f_radius
     (midpointTo \<lparr>f_lat = Fin 0, f_lon = VNum (Fin 0), f_radius = Fin 1000\<rparr>
                 \<lparr>f_lat = Fin 0, f_lon = VNum (Fin 0), f_radius = Fin 1000\<rparr>)
   \<noteq> Inr (f_radius \<lparr>f_lat = Fin 0, f_lon = VNum (Fin 0), f_radius = Fin 1000\<rparr>)"
  by (simp add: midpointTo_def LngLat_numbers Let_def)

text \<open>
  C4 (amended): the point returned by \<open>p.midpointTo(other)\<close> and the point returned by
  \<open>p.destinationPoint(bearing, distance)\<close> have the default radius 6371, whatever the
  radius of \<open>p\<close> is: both are built by \<open>new LngLat(lon, lat)\<close> with no radius argument.
  Both operations return a point when the stored longitude of \<open>p\<close> is a number (and the
  bearing is one).
\<close>

theorem computed_point_radius:
  "(midpointTo p q = Inr m \<longrightarrow> f_radius m = Fin 6371)
   \<and> (destinationPoint p brng d = Inr m' \<longrightarrow> f_radius m' = Fin 6371)
   \<and> (f_lon p = VNum x \<longrightarrow> (\<exists>m. midpointTo p q = Inr m))
   \<and> (f_lon p = VNum x \<longrightarrow> (\<exists>m. destinationPoint p (VNum b) d = Inr m))"
  by (auto simp: midpointTo_def destinationPoint_def LngLat_numbers Let_def
      split: sum.splits)

theorem computed_point_radius_witness:
  "f_lon \<lparr>f_lat = Fin 0, f_lon = VNum (Fin 0), f_radius = Fin 1000\<rparr> = VNum (Fin 0)
   \<and> (\<exists>m. midpointTo \<lparr>f_lat = Fin 0, f_lon = VNum (Fin 0), f_radius = Fin 1000\<rparr>
             \<lparr>f_lat = Fin 0, f_lon = VNum (Fin 0), f_radius = Fin 1000\<rparr> = Inr m
          \<and> f_radius m = Fin 6371)
   \<and> (\<exists>m. destinationPoint \<lparr>f_lat = Fin 0, f_lon = VNum (Fin 0), f_radius = Fin 1000\<rparr>
             (VNum (Fin 90)) (VNum (Fin 10)) = Inr m
          \<and> f_radius m = Fin 6371)"
  using computed_point_radius
    [of "\<lparr>f_lat = Fin 0, f_lon = VNum (Fin 0), f_radius = Fin 1000\<rparr>"
        "\<lparr>f_lat = Fin 0, f_lon = VNum (Fin 0), f_radius = Fin 1000\<rparr>" _ _ _ _ "Fin 0" "Fin 90"]
    computed_point_radius
    [of "\<lparr>f_lat = Fin 0, f_lon = VNum (Fin 0), f_radius = Fin 1000\<rparr>" _ _ "VNum (Fin 90)"
        "VNum (Fin 10)"]
  by (metis select_convs(2))

subsection \<open>toPrecisionFixed\<close>

lemma toRad_Fin: "toRad (Fin x) = Fin (x * pi / 180)"
  by (simp add: toRad_def Math_PI_def)

lemma toDeg_Fin: "toDeg (Fin x) = Fin (x * 180 / pi)"
  by (simp add: toDeg_def Math_PI_def)

text \<open>The decimal scale of a positive number that lies between two powers of ten.\<close>

lemma ceiling_log10:
  assumes "10 powr (of_int k - 1) < (x::real)" and "x \<le> 10 powr (of_int k)"
  shows "\<lceil>ln x * (1 / ln 10)\<rceil> = k"
proof -
  have "(0::real) < 10 powr (of_int k - 1)" by simp
  then have pos: "0 < x" using assms(1) by linarith
  have eq: "ln x * (1 / ln 10) = log 10 x" by (simp add: log_def)
  have "of_int k - 1 < log 10 x" using assms(1) pos by (simp add: less_log_iff)
  moreover have "log 10 x \<le> of_int k" using assms(2) pos by (simp add: log_le_iff)
  ultimately show ?thesis unfolding eq by (intro ceiling_unique)
qed

text \<open>
  toPrecisionFixed on a positive number of decimal scale \<open>k\<close>: the body of the source
  with the scale computed and the two counting loops run.
\<close>

lemma toPrecisionFixed_positive:
  assumes "10 powr (of_int k - 1) < x" and "x \<le> 10 powr (of_int k)"
  shows "toPrecisionFixed (Fin x) p =
     (let n = String_Math_round (Fin (x * 10 powr (real p - of_int k)))
      in if 0 < k then
           (let n1 = n @ replicate (nat \<lceil>of_int k - real (length n)\<rceil>) (CHR ''0'')
            in Some (if of_int k < real (length n1)
                     then String_slice n1 (Fin 0) (Some (Fin (of_int k))) @ ''.''
                            @ String_slice n1 (Fin (of_int k)) None
                     else n1))
         else Some (''0.'' @ replicate (nat \<lceil>- real_of_int k\<rceil>) (CHR ''0'') @ n))"
proof -
  have "(0::real) < 10 powr (of_int k - 1)" by simp
  then have pos: "0 < x" using assms(1) by linarith
  have c: "\<lceil>ln x / ln 10\<rceil> = k" using ceiling_log10[OF assms] by simp
  have scale: "Math_ceil (num_mul (Math_log (Fin x)) Math_LOG10E) = Fin (of_int k)"
    using pos c by (simp add: Math_LOG10E_def)
  have numb: "\<not> num_lt (Fin x) (Fin 0)" "\<not> num_eq (Fin x) (Fin 0)" "\<not> isNaN (Fin x)"
    using pos by (simp_all add: num_eq_def isNaN_def)
  show ?thesis
    unfolding toPrecisionFixed_def Let_def if_not_P[OF numb(1)] if_not_P[OF numb(2)]
      if_not_P[OF numb(3)] scale
    by (simp add: num_gt_def num_sub_def append_zeros_Fin prepend_zeros_Fin)
qed

lemma toPrecisionFixed_negative:
  assumes "0 < x"
  shows "toPrecisionFixed (Fin (- x)) p
         = map_option ((#) (CHR ''-'')) (toPrecisionFixed (Fin x) p)"
  using assms
  by (simp add: toPrecisionFixed_def isNaN_def num_eq_def Let_def split: option.splits)

lemma toPrecisionFixed_positive_returns:
  assumes "0 < x"
  shows "\<exists>s. toPrecisionFixed (Fin x) p = Some s"
  using assms
  by (simp add: toPrecisionFixed_def isNaN_def num_eq_def Let_def Math_LOG10E_def
      num_gt_def num_sub_def append_zeros_Fin prepend_zeros_Fin)

text \<open>On a finite number toPrecisionFixed returns.\<close>

lemma toPrecisionFixed_Fin_returns: "\<exists>s. toPrecisionFixed (Fin x) p = Some s"
proof -
  consider "x = 0" | "0 < x" | "0 < - x" by linarith
  then show ?thesis
  proof cases
    case 1
    then show ?thesis by (simp add: toPrecisionFixed_def isNaN_def num_eq_def)
  next
    case 2
    then show ?thesis by (rule toPrecisionFixed_positive_returns)
  next
    case 3
    from toPrecisionFixed_positive_returns[OF 3, of p] toPrecisionFixed_negative[OF 3, of p]
    show ?thesis by auto
  qed
qed

lemma toPrecisionFixed_sign:
  assumes "num_lt y (Fin 0)" and "toPrecisionFixed y p = Some t"
  shows "\<exists>s. t = CHR ''-'' # s"
  using assms
  by (cases y)
     (auto simp: toPrecisionFixed_def isNaN_def num_eq_def Let_def
       split: if_splits option.splits)




text \<open>
  C5: toPrecisionFixed on the literal vectors: 0 at precision 4 gives \<open>0.0000\<close>,
  1234.5678 at precision 4 gives \<open>1235\<close>, 0.012345 at precision 3 gives \<open>0.0123\<close>;
  on every negative finite input it returns a string that starts with \<open>-\<close>, and whatever
  it returns on a negative input (the negative infinity included) starts with \<open>-\<close>; on
  NaN it returns \<open>NaN\<close>.
\<close>

theorem toPrecisionFixed_vectors:
  "toPrecisionFixed (Fin 0) 4 = Some ''0.0000''
   \<and> toPrecisionFixed (Fin 1234.5678) 4 = Some ''1235''
   \<and> toPrecisionFixed (Fin 0.012345) 3 = Some ''0.0123''
   \<and> (x < 0 \<longrightarrow> (\<exists>s. toPrecisionFixed (Fin x) p = Some (CHR ''-'' # s)))
   \<and> (num_lt y (Fin 0) \<longrightarrow> toPrecisionFixed y p = Some t \<longrightarrow> (\<exists>s. t = CHR ''-'' # s))
   \<and> toPrecisionFixed NaN p = Some ''NaN''"
proof (intro conjI impI)
  show "toPrecisionFixed (Fin 0) 4 = Some ''0.0000''"
    by (simp add: toPrecisionFixed_def isNaN_def num_eq_def zero_fill_eq eval_nat_numeral)
  show "toPrecisionFixed (Fin 1234.5678) 4 = Some ''1235''"
    by (subst toPrecisionFixed_positive[where k = 4])
       (simp_all add: int_to_string_def nat_digits.simps String_slice_def)
  show "toPrecisionFixed (Fin 0.012345) 3 = Some ''0.0123''"
    by (subst toPrecisionFixed_positive[where k = "-1"])
       (simp_all add: int_to_string_def nat_digits.simps powr_minus String_slice_def)
  show "\<exists>s. toPrecisionFixed (Fin x) p = Some (CHR ''-'' # s)" if "x < 0"
  proof -
    obtain t where t: "toPrecisionFixed (Fin x) p = Some t"
      using toPrecisionFixed_Fin_returns by blast
    with toPrecisionFixed_sign[of "Fin x" p t] that show ?thesis by auto
  qed
  show "\<exists>s. t = CHR ''-'' # s" if "num_lt y (Fin 0)" and "toPrecisionFixed y p = Some t"
    using that by (rule toPrecisionFixed_sign)
  show "toPrecisionFixed NaN p = Some ''NaN''"
    by (simp add: toPrecisionFixed_def isNaN_def)
qed

theorem toPrecisionFixed_vectors_witness:
  "(- 1234.5678 :: real) < 0
   \<and> (\<exists>s. toPrecisionFixed (Fin (- 1234.5678)) 4 = Some (CHR ''-'' # s))
   \<and> num_lt (Fin (- 1234.5678)) (Fin 0)
   \<and> toPrecisionFixed (Fin (- 1234.5678)) 4 = Some ''-1235''
   \<and> (\<exists>s. ''-1235'' = CHR ''-'' # s)"
proof -
  have pos: "toPrecisionFixed (Fin 1234.5678) 4 = Some ''1235''"
    using toPrecisionFixed_vectors[of 0 0 NaN "[]"] by blast
  have v: "toPrecisionFixed (Fin (- 1234.5678)) 4 = Some ''-1235''"
    using toPrecisionFixed_negative[of "1234.5678" 4] pos by simp
  have n: "(- 1234.5678 :: real) < 0" "num_lt (Fin (- 1234.5678)) (Fin 0)" by simp_all
  from toPrecisionFixed_vectors[of "- 1234.5678" 4 "Fin (- 1234.5678)" "''-1235''"] v n
  show ?thesis by blast
qed

subsection \<open>Bounds of pi\<close>

text \<open>
  The cosine is within \<open>x^12 / 12!\<close> of its Taylor polynomial of degree 10; its sign on
  both sides of \<open>pi / 2\<close> bounds pi.
\<close>

lemma sum_lessThan_12:
  "(\<Sum>m<12. f m) = f 0 + f 1 + f 2 + f 3 + f 4 + f 5 + f 6 + f 7 + f 8 + f 9 + f 10 + f 11"
  for f :: "nat \<Rightarrow> real"
  by (simp add: eval_nat_numeral)

lemma cos_coeff_values:
  "cos_coeff (Suc 0) = 0" "cos_coeff 2 = - 1 / 2" "cos_coeff 3 = 0" "cos_coeff 4 = 1 / 24"
  "cos_coeff 5 = 0" "cos_coeff 6 = - 1 / 720" "cos_coeff 7 = 0" "cos_coeff 8 = 1 / 40320"
  "cos_coeff 9 = 0" "cos_coeff 10 = - 1 / 3628800" "cos_coeff 11 = 0"
  by (simp_all add: cos_coeff_def fact_numeral)

lemma cos_taylor_12:
  fixes x :: real
  shows "\<bar>cos x - (1 - x^2 / 2 + x^4 / 24 - x^6 / 720 + x^8 / 40320 - x^10 / 3628800)\<bar>
         \<le> \<bar>x\<bar>^12 / 479001600"
proof -
  obtain t where t:
    "cos x = (\<Sum>m<12. cos_coeff m * x ^ m)
             + (cos (t + 1/2 * real 12 * pi) / fact 12) * x ^ 12"
    using Maclaurin_cos_expansion[of x 12] by blast
  have s: "(\<Sum>m<12. cos_coeff m * x ^ m)
           = 1 - x^2 / 2 + x^4 / 24 - x^6 / 720 + x^8 / 40320 - x^10 / 3628800"
    unfolding sum_lessThan_12 by (simp add: cos_coeff_values)
  have "\<bar>cos (t + 1/2 * real 12 * pi)\<bar> / fact 12 \<le> 1 / (fact 12 :: real)"
    by (intro divide_right_mono) simp_all
  then have "\<bar>(cos (t + 1/2 * real 12 * pi) / fact 12) * x ^ 12\<bar> \<le> 1 / fact 12 * \<bar>x\<bar> ^ 12"
    unfolding abs_mult abs_divide power_abs
    by (intro mult_right_mono) simp_all
  also have "\<dots> = \<bar>x\<bar>^12 / 479001600" by (simp add: fact_numeral)
  finally show ?thesis using t s by simp
qed

lemma pi_gt_31415: "3.1415 < pi"
proof -
  let ?x = "1.57075 :: real"
  let ?P = "1 - ?x^2 / 2 + ?x^4 / 24 - ?x^6 / 720 + ?x^8 / 40320 - ?x^10 / 3628800"
  have "?P - \<bar>?x\<bar>^12 / 479001600 \<le> cos ?x"
    using cos_taylor_12[of ?x] by linarith
  moreover have "0 < ?P - \<bar>?x\<bar>^12 / 479001600"
    by (simp add: power_divide)
  ultimately have "0 < cos ?x" by linarith
  moreover have "cos ?x \<le> cos (pi / 2)" if "pi / 2 \<le> ?x"
    using that pi_ge_two by (intro cos_monotone_0_pi_le) simp_all
  ultimately show ?thesis by force
qed

lemma pi_lt_31417: "pi < 3.1417"
proof -
  let ?x = "1.57085 :: real"
  let ?P = "1 - ?x^2 / 2 + ?x^4 / 24 - ?x^6 / 720 + ?x^8 / 40320 - ?x^10 / 3628800"
  have "cos ?x \<le> ?P + \<bar>?x\<bar>^12 / 479001600"
    using cos_taylor_12[of ?x] by linarith
  moreover have "?P + \<bar>?x\<bar>^12 / 479001600 < 0"
    by (simp add: power_divide)
  ultimately have "cos ?x < 0" by linarith
  then show ?thesis using cos_ge_zero[of ?x] by force
qed

subsection \<open>Symmetry of distanceTo\<close>

lemma toPrecisionFixed_pi: "toPrecisionFixed (Fin pi) 4 = Some ''3.142''"
proof -
  have f: "\<lfloor>pi * 1000 + 1 / 2\<rfloor> = 3142"
    using pi_gt_31415 pi_lt_31417 by (intro floor_unique) simp_all
  have b: "10 powr (of_int 1 - 1) < pi" "pi \<le> 10 powr (of_int 1)"
    using pi_gt_31415 pi_lt_31417 by simp_all
  show ?thesis
    by (subst toPrecisionFixed_positive[OF b])
       (simp add: f int_to_string_def nat_digits.simps String_slice_def)
qed

lemma toPrecisionFixed_2pi: "toPrecisionFixed (Fin (2 * pi)) 4 = Some ''6.283''"
proof -
  have f: "\<lfloor>2000 * pi + 1 / 2\<rfloor> = 6283"
    using pi_gt_31415 pi_lt_31417 by (intro floor_unique) simp_all
  have b: "10 powr (of_int 1 - 1) < 2 * pi" "2 * pi \<le> 10 powr (of_int 1)"
    using pi_gt_31415 pi_lt_31417 by simp_all
  show ?thesis
    by (subst toPrecisionFixed_positive[OF b])
       (simp add: f int_to_string_def nat_digits.simps String_slice_def)
qed

text \<open>
  C7 as stated fails: for a point of radius 1 and its antipode of radius 2 on the equator,
  the two calls return different strings, each the half circumference of the receiver's
  sphere.
\<close>

theorem distanceTo_symmetric_counterexample:
  "distanceTo \<lparr>f_lat = Fin 0, f_lon = VNum (Fin 0), f_radius = Fin 1\<rparr>
              \<lparr>f_lat = Fin 0, f_lon = VNum (Fin 180), f_radius = Fin 2\<rparr> None
     = Inr (Some ''3.142'')
   \<and> distanceTo \<lparr>f_lat = Fin 0, f_lon = VNum (Fin 180), f_radius = Fin 2\<rparr>
                \<lparr>f_lat = Fin 0, f_lon = VNum (Fin 0), f_radius = Fin 1\<rparr> None
     = Inr (Some ''6.283'')"
  by (simp add: distanceTo_def toRad_Fin num_sub_def atan2_real_def
      toPrecisionFixed_pi toPrecisionFixed_2pi)

lemma haversine_symmetric:
  fixes u1 u2 v1 v2 :: real
  shows "sin ((u2 - u1) / 2) * sin ((u2 - u1) / 2)
           + cos u1 * cos u2 * sin ((v2 - v1) / 2) * sin ((v2 - v1) / 2)
         = sin ((u1 - u2) / 2) * sin ((u1 - u2) / 2)
           + cos u2 * cos u1 * sin ((v1 - v2) / 2) * sin ((v1 - v2) / 2)"
proof -
  have "sin ((u1 - u2) / 2) = - sin ((u2 - u1) / 2)"
    by (metis minus_diff_eq minus_divide_left sin_minus)
  moreover have "sin ((v1 - v2) / 2) = - sin ((v2 - v1) / 2)"
    by (metis minus_diff_eq minus_divide_left sin_minus)
  ultimately show ?thesis by simp
qed

text \<open>
  C7 (amended): for two points with finite coordinates and the same radius,
  \<open>p1.distanceTo(p2)\<close> and \<open>p2.distanceTo(p1)\<close> are equal, at every precision; when the
  radius is finite both return a string.
\<close>

theorem distanceTo_symmetric:
  assumes "f_lat p1 = Fin a1" and "f_lon p1 = VNum (Fin b1)"
    and "f_lat p2 = Fin a2" and "f_lon p2 = VNum (Fin b2)"
    and "f_radius p1 = f_radius p2"
  shows "distanceTo p1 p2 prec = distanceTo p2 p1 prec
         \<and> (f_radius p1 = Fin r \<longrightarrow> (\<exists>s. distanceTo p1 p2 prec = Inr (Some s)))"
proof -
  have "distanceTo p1 p2 prec = distanceTo p2 p1 prec"
    using assms
      haversine_symmetric[of "a2 * pi / 180" "a1 * pi / 180" "b2 * pi / 180" "b1 * pi / 180"]
    by (simp add: distanceTo_def toRad_Fin num_sub_def Let_def)
  moreover have "\<exists>s. distanceTo p1 p2 prec = Inr (Some s)" if "f_radius p1 = Fin r"
    using assms(1-4) that
    by (simp add: distanceTo_def toRad_Fin num_sub_def Let_def toPrecisionFixed_Fin_returns
        toPrecisionFixed_def[of NaN] isNaN_def)
  ultimately show ?thesis by blast
qed

theorem distanceTo_symmetric_witness:
  "distanceTo \<lparr>f_lat = Fin 0, f_lon = VNum (Fin 0), f_radius = Fin 1\<rparr>
              \<lparr>f_lat = Fin 0, f_lon = VNum (Fin 180), f_radius = Fin 1\<rparr> None
     = distanceTo \<lparr>f_lat = Fin 0, f_lon = VNum (Fin 180), f_radius = Fin 1\<rparr>
              \<lparr>f_lat = Fin 0, f_lon = VNum (Fin 0), f_radius = Fin 1\<rparr> None
   \<and> (\<exists>s. distanceTo \<lparr>f_lat = Fin 0, f_lon = VNum (Fin 0), f_radius = Fin 1\<rparr>
              \<lparr>f_lat = Fin 0, f_lon = VNum (Fin 180), f_radius = Fin 1\<rparr> None
            = Inr (Some s))"
proof -
  let ?P1 = "\<lparr>f_lat = Fin 0, f_lon = VNum (Fin 0), f_radius = Fin 1\<rparr>"
  let ?P2 = "\<lparr>f_lat = Fin 0, f_lon = VNum (Fin 180), f_radius = Fin 1\<rparr>"
  have h: "distanceTo ?P1 ?P2 None = distanceTo ?P2 ?P1 None
           \<and> (f_radius ?P1 = Fin 1 \<longrightarrow> (\<exists>s. distanceTo ?P1 ?P2 None = Inr (Some s)))"
    by (rule distanceTo_symmetric[where ?a1.0 = 0 and ?b1.0 = 0 and ?a2.0 = 0 and ?b2.0 = 180])
       simp_all
  have r: "f_radius ?P1 = Fin 1" by simp
  from h r show ?thesis by blast
qed

subsection \<open>The range of bearingTo\<close>

lemma atan2_real_bounds: "- pi < atan2_real y x \<and> atan2_real y x \<le> pi"
proof -
  have lb: "- (pi / 2) < arctan (y / x)" and ub: "arctan (y / x) < pi / 2"
    by (rule arctan_lbound, rule arctan_ubound)
  have p: "0 < pi" by simp
  consider "0 < x" | "x < 0" "0 \<le> y" | "x < 0" "y < 0" | "x = 0" by linarith
  then show ?thesis
  proof cases
    case 1
    then have "atan2_real y x = arctan (y / x)" by (simp add: atan2_real_def)
    then show ?thesis using lb ub p by linarith
  next
    case 2
    then have "y / x \<le> 0" by (simp add: divide_nonneg_neg)
    then have "arctan (y / x) \<le> 0" by (simp add: arctan_le_zero_iff)
    moreover have "atan2_real y x = arctan (y / x) + pi" using 2 by (simp add: atan2_real_def)
    ultimately show ?thesis using lb p by linarith
  next
    case 3
    then have "0 < y / x" by (simp add: divide_neg_neg)
    then have "0 < arctan (y / x)" by (simp add: zero_less_arctan_iff)
    moreover have "atan2_real y x = arctan (y / x) - pi" using 3 by (simp add: atan2_real_def)
    ultimately show ?thesis using ub p by linarith
  next
    case 4
    then have "atan2_real y x = pi / 2 \<or> atan2_real y x = - (pi / 2) \<or> atan2_real y x = 0"
      by (simp add: atan2_real_def)
    then show ?thesis using p by linarith
  qed
qed

text \<open>The remainder of a non-negative dividend lies below the divisor.\<close>

lemma remainder_range:
  assumes "0 \<le> v" and "0 < m"
  shows "0 \<le> v - m * trunc (v / m) \<and> v - m * trunc (v / m) < m"
proof -
  have nn: "0 \<le> v / m" using assms by simp
  have vm: "m * (v / m) = v" using assms(2) by simp
  have "m * of_int \<lfloor>v / m\<rfloor> \<le> m * (v / m)"
    using assms(2) by (intro mult_left_mono) simp_all
  then have 1: "m * of_int \<lfloor>v / m\<rfloor> \<le> v" using vm by simp
  have "v / m < of_int \<lfloor>v / m\<rfloor> + 1" by linarith
  then have "m * (v / m) < m * (of_int \<lfloor>v / m\<rfloor> + 1)"
    using assms(2) by (intro mult_strict_left_mono) simp_all
  then have 2: "v < m * of_int \<lfloor>v / m\<rfloor> + m" using vm by (simp add: algebra_simps)
  have "trunc (v / m) = of_int \<lfloor>v / m\<rfloor>" using nn by (simp add: trunc_def)
  then show ?thesis using 1 2 by simp
qed

text \<open>
  C6: for every pair of points with finite latitude and longitude, the value returned by
  \<open>bearingTo\<close> is a finite number in the half-open interval from 0 to 360.
\<close>

theorem bearingTo_range:
  assumes "f_lat p = Fin a" and "f_lon p = VNum (Fin b)"
    and "f_lat q = Fin c" and "f_lon q = VNum (Fin d)"
  shows "\<exists>r. bearingTo p q = Fin r \<and> 0 \<le> r \<and> r < 360"
proof -
  define y where "y = sin ((d - b) * pi / 180) * cos (c * pi / 180)"
  define x where "x = cos (a * pi / 180) * sin (c * pi / 180)
                      - sin (a * pi / 180) * cos (c * pi / 180) * cos ((d - b) * pi / 180)"
  define v where "v = atan2_real y x * 180 / pi + 360"
  have b: "bearingTo p q = Fin (v - 360 * trunc (v / 360))"
    using assms by (simp add: bearingTo_def toRad_Fin toDeg_Fin num_sub_def y_def x_def v_def)
  have "- pi < atan2_real y x" using atan2_real_bounds by blast
  then have "- 180 < atan2_real y x * 180 / pi" by (simp add: pos_less_divide_eq)
  then have "0 \<le> v" by (simp add: v_def)
  from remainder_range[OF this, of 360] b show ?thesis by simp
qed

theorem bearingTo_range_witness:
  "\<exists>r. bearingTo \<lparr>f_lat = Fin 51.5136, f_lon = VNum (Fin (- 0.0983)), f_radius = Fin 6371\<rparr>
          \<lparr>f_lat = Fin 51.4778, f_lon = VNum (Fin (- 0.0015)), f_radius = Fin 6371\<rparr> = Fin r
       \<and> 0 \<le> r \<and> r < 360"
  by (rule bearingTo_range
        [where a = "51.5136" and b = "- 0.0983" and c = "51.4778" and d = "- 0.0015"])
     simp_all

subsection \<open>The formula of rhumbDistanceTo\<close>








subsection \<open>The two destination operations read the distance differently\<close>

lemma NaN_absorbs:
  "num_add a NaN = NaN" "num_mul a NaN = NaN" "num_div a NaN = NaN"
  "num_mod NaN a = NaN" "num_mod a NaN = NaN" "num_sub a NaN = NaN" "num_sub NaN a = NaN"
  by (cases a; simp add: num_sub_def)+

text \<open>
  What the two conversions make of a string of decimal digits, alone or followed by a
  character that cannot continue a numeric literal.
\<close>

lemma is_digit_10_iff: "is_digit 10 c \<longleftrightarrow> c \<in> set ''0123456789''"
  by (simp add: is_digit_def digit_value_def digit_table_def)

lemma digit_not_space: "is_digit 10 c \<Longrightarrow> \<not> is_space c"
  by (auto simp: is_digit_10_iff is_space_def)

lemma takeWhile_digits:
  assumes "\<forall>x\<in>set ds. is_digit 10 x" and "\<not> is_digit 10 c"
  shows "takeWhile (is_digit 10) (ds @ c # r) = ds"
    and "dropWhile (is_digit 10) (ds @ c # r) = c # r"
  using assms by (simp_all add: takeWhile_tail dropWhile_append3)

text \<open>A string of decimal digits followed by a character that cannot continue a literal.\<close>

lemma scan_signed_prefix:
  assumes "ds \<noteq> []" and "\<forall>x\<in>set ds. is_digit 10 x" and "\<not> is_digit 10 c"
    and "c \<notin> set ''.eE''"
  shows "scan_signed (ds @ c # r) = Some (Fin (real (digits_value 10 ds)), c # r)"
proof -
  obtain d ds' where ds: "ds = d # ds'" using assms(1) by (cases ds) auto
  have d: "is_digit 10 d" using assms(2) ds by simp
  then have sign: "d \<noteq> CHR ''+''" "d \<noteq> CHR ''-''" "d \<noteq> CHR ''I''"
    by (auto simp: is_digit_10_iff)
  have inf: "take 8 (ds @ c # r) \<noteq> ''Infinity''" using ds sign by auto
  have un: "scan_unsigned (ds @ c # r) = Some (Fin (real (digits_value 10 ds)), c # r)"
    using assms(1,4) inf
    by (simp add: scan_unsigned_def scan_exponent_def Let_def digits_value_def
        takeWhile_digits[OF assms(2,3)])
  show ?thesis using un sign ds by (simp add: scan_signed_def)
qed

lemma scan_signed_digits:
  assumes "ds \<noteq> []" and "\<forall>x\<in>set ds. is_digit 10 x"
  shows "scan_signed ds = Some (Fin (real (digits_value 10 ds)), [])"
proof -
  obtain d ds' where ds: "ds = d # ds'" using assms(1) by (cases ds) auto
  have d: "is_digit 10 d" using assms(2) ds by simp
  then have sign: "d \<noteq> CHR ''+''" "d \<noteq> CHR ''-''" "d \<noteq> CHR ''I''"
    by (auto simp: is_digit_10_iff)
  have inf: "take 8 ds \<noteq> ''Infinity''" using ds sign by auto
  have tw: "takeWhile (is_digit 10) ds = ds" "dropWhile (is_digit 10) ds = []"
    using assms(2) by (simp_all add: takeWhile_eq_all_conv)
  have un: "scan_unsigned ds = Some (Fin (real (digits_value 10 ds)), [])"
    using assms(1) inf
    by (simp add: scan_unsigned_def scan_exponent_def Let_def digits_value_def tw)
  show ?thesis using un sign ds by (simp add: scan_signed_def)
qed

lemma radix_prefix_digits:
  assumes "ds \<noteq> []" and "\<forall>x\<in>set ds. is_digit 10 x" and "\<not> is_digit 10 c \<longrightarrow> c \<notin> set ''xXoObB''"
  shows "radix_prefix (ds @ c # r) = None" and "radix_prefix ds = None"
proof -
  obtain d ds' where ds: "ds = d # ds'" using assms(1) by (cases ds) auto
  have nd: "x \<notin> set ''xXoObB''" if "is_digit 10 x" for x
    using that by (auto simp: is_digit_10_iff)
  show "radix_prefix (ds @ c # r) = None"
  proof (cases ds')
    case Nil
    then show ?thesis using ds assms(3) nd[of c] by (auto simp: radix_prefix_def)
  next
    case (Cons e es)
    then have "is_digit 10 e" using assms(2) ds by simp
    from nd[OF this] show ?thesis using ds Cons by (auto simp: radix_prefix_def)
  qed
  show "radix_prefix ds = None"
  proof (cases ds')
    case Nil
    then show ?thesis using ds by (simp add: radix_prefix_def)
  next
    case (Cons e es)
    then have "is_digit 10 e" using assms(2) ds by simp
    from nd[OF this] show ?thesis using ds Cons by (auto simp: radix_prefix_def)
  qed
qed

lemma String_trim_prefix:
  assumes "ds \<noteq> []" and "\<forall>x\<in>set ds. is_digit 10 x" and "\<not> is_space c"
  shows "String_trim (ds @ c # r) = ds @ c # rev (dropWhile is_space (rev r))"
    and "String_trim ds = ds"
proof -
  obtain d ds' where ds: "ds = d # ds'" using assms(1) by (cases ds) auto
  have d: "\<not> is_space d" using assms(2) ds digit_not_space by simp
  have lead: "dropWhile is_space (ds @ c # r) = ds @ c # r" "dropWhile is_space ds = ds"
    using ds d by simp_all
  have "dropWhile is_space (rev r @ c # rev ds) = dropWhile is_space (rev r) @ c # rev ds"
    using assms(3) by (rule dropWhile_append3)
  then show "String_trim (ds @ c # r) = ds @ c # rev (dropWhile is_space (rev r))"
    by (simp add: String_trim_def lead)
  have "\<not> is_space (last ds)" using assms(1,2) digit_not_space by simp
  then have "dropWhile is_space (rev ds) = rev ds"
    using assms(1) by (cases "rev ds") (auto simp: last_rev hd_rev[symmetric] dest: arg_cong[where f = hd])
  then show "String_trim ds = ds" by (simp add: String_trim_def lead)
qed

lemma dropWhile_space_digits:
  assumes "ds \<noteq> []" and "\<forall>x\<in>set ds. is_digit 10 x"
  shows "dropWhile is_space (ds @ r) = ds @ r"
proof -
  obtain d ds' where ds: "ds = d # ds'" using assms(1) by (cases ds) auto
  then have "\<not> is_space d" using assms(2) digit_not_space by simp
  then show ?thesis using ds by simp
qed

lemma parseFloat_prefix:
  assumes "ds \<noteq> []" and "\<forall>x\<in>set ds. is_digit 10 x" and "\<not> is_digit 10 c"
    and "c \<notin> set ''.eE''"
  shows "parseFloat (VStr (ds @ c # r)) = Fin (real (digits_value 10 ds))"
  by (simp only: parseFloat.simps dropWhile_space_digits[OF assms(1,2)]
      scan_signed_prefix[OF assms] option.case prod.case)

lemma parseFloat_digits:
  assumes "ds \<noteq> []" and "\<forall>x\<in>set ds. is_digit 10 x"
  shows "parseFloat (VStr ds) = Fin (real (digits_value 10 ds))"
  using dropWhile_space_digits[OF assms, of "[]"] scan_signed_digits[OF assms]
  by simp

lemma numeric_arg_prefix:
  assumes "ds \<noteq> []" and "\<forall>x\<in>set ds. is_digit 10 x" and "\<not> is_digit 10 c"
    and "\<not> is_space c" and "c \<notin> set ''.eExXoObB''"
  shows "numeric_arg (VStr (ds @ c # r)) = NaN"
proof -
  let ?r = "rev (dropWhile is_space (rev r))"
  have t: "String_trim (ds @ c # r) = ds @ c # ?r"
    using assms(1,2,4) by (rule String_trim_prefix(1))
  have c1: "c \<notin> set ''.eE''" and c2: "\<not> is_digit 10 c \<longrightarrow> c \<notin> set ''xXoObB''"
    using assms(5) by auto
  have rp: "radix_prefix (ds @ c # ?r) = None"
    using assms(1,2) c2 by (rule radix_prefix_digits(1))
  have sc: "scan_signed (ds @ c # ?r) = Some (Fin (real (digits_value 10 ds)), c # ?r)"
    using assms(1,2,3) c1 by (rule scan_signed_prefix)
  show ?thesis by (simp add: StringToNumber_def t rp sc)
qed

lemma numeric_arg_digits:
  assumes "ds \<noteq> []" and "\<forall>x\<in>set ds. is_digit 10 x"
  shows "numeric_arg (VStr ds) = Fin (real (digits_value 10 ds))"
proof -
  have t: "String_trim ds = ds" using assms by (rule String_trim_prefix(2)[where c = "CHR ''a''"]) (simp add: is_space_def)
  have rp: "radix_prefix ds = None"
    using assms by (rule radix_prefix_digits(2)[where c = "CHR ''a''"]) simp
  show ?thesis using assms(1) by (simp add: StringToNumber_def t rp scan_signed_digits[OF assms])
qed

lemma lagrange_identity:
  fixes a b c u :: real
  shows "(a * c + b * u)\<^sup>2 + (a * u - b * c)\<^sup>2 = (a\<^sup>2 + b\<^sup>2) * (c\<^sup>2 + u\<^sup>2)"
  by (simp add: power2_eq_square algebra_simps)

lemma asin_argument_bounded:
  fixes l d b :: real
  shows "\<bar>sin l * cos d + cos l * sin d * cos b\<bar> \<le> 1"
proof -
  let ?u = "sin d * cos b"
  let ?x = "sin l * cos d + cos l * ?u"
  have "?x\<^sup>2 + (sin l * ?u - cos l * cos d)\<^sup>2
        = ((sin l)\<^sup>2 + (cos l)\<^sup>2) * ((cos d)\<^sup>2 + ?u\<^sup>2)"
    by (rule lagrange_identity)
  then have "?x\<^sup>2 + (sin l * ?u - cos l * cos d)\<^sup>2 = (cos d)\<^sup>2 + ?u\<^sup>2"
    by simp
  moreover have "0 \<le> (sin l * ?u - cos l * cos d)\<^sup>2" by (rule zero_le_power2)
  ultimately have "?x\<^sup>2 \<le> (cos d)\<^sup>2 + ?u\<^sup>2" by linarith
  moreover have "?u\<^sup>2 \<le> (sin d)\<^sup>2"
  proof -
    have "(sin b)\<^sup>2 + (cos b)\<^sup>2 = 1" by (rule sin_cos_squared_add)
    moreover have "0 \<le> (sin b)\<^sup>2" by (rule zero_le_power2)
    ultimately have cb: "(cos b)\<^sup>2 \<le> 1" by linarith
    have "(sin d)\<^sup>2 * (cos b)\<^sup>2 \<le> (sin d)\<^sup>2 * 1"
      by (rule mult_left_mono[OF cb]) simp
    then show ?thesis by (simp add: power_mult_distrib)
  qed
  ultimately have "?x\<^sup>2 \<le> (cos d)\<^sup>2 + (sin d)\<^sup>2" by linarith
  then have "?x\<^sup>2 \<le> 1\<^sup>2" by simp
  then have "\<bar>?x\<bar> \<le> \<bar>1::real\<bar>" by (simp only: abs_le_square_iff)
  then show ?thesis by (simp add: mult.assoc)
qed

text \<open>
  C10: \<open>rhumbDestinationPoint\<close> reads its distance with \<open>parseFloat\<close> and
  \<open>destinationPoint\<close> with the conversion of the whole string: each returns on a string
  what it returns on the number that its conversion makes of the string. A string of
  decimal digits followed by a character that is no digit, no white space and none of
  \<open>. e E x X o O b B\<close> (as \<open>12abc\<close>) is the value of the digits for \<open>parseFloat\<close> and NaN
  for the whole-string conversion, which takes the digits alone as their value. So for a
  point with a finite latitude, a numeric longitude and a finite non-zero radius, and a
  finite bearing, \<open>rhumbDestinationPoint\<close> returns on such a string a point whose latitude
  is the one reached after the distance of the digits, \<open>destinationPoint\<close> returns a point
  whose latitude and longitude are NaN, and on the digits alone \<open>destinationPoint\<close>
  returns a point of the finite latitude of its formula.
\<close>

theorem destination_distance_parsing:
  assumes "f_lat p = Fin la" and "f_lon p = VNum lo" and "f_radius p = Fin r" and "r \<noteq> 0"
    and "ds \<noteq> []" and "\<forall>x\<in>set ds. is_digit 10 x"
    and "\<not> is_digit 10 c" and "\<not> is_space c" and "c \<notin> set ''.eExXoObB''"
  shows "rhumbDestinationPoint p brng (VStr t)
           = rhumbDestinationPoint p brng (VNum (parseFloat (VStr t)))
         \<and> destinationPoint p brng (VStr t)
           = destinationPoint p brng (VNum (numeric_arg (VStr t)))
         \<and> parseFloat (VStr (ds @ c # rest)) = Fin (real (digits_value 10 ds))
         \<and> numeric_arg (VStr (ds @ c # rest)) = NaN
         \<and> parseFloat (VStr ds) = Fin (real (digits_value 10 ds))
         \<and> numeric_arg (VStr ds) = Fin (real (digits_value 10 ds))
         \<and> (\<exists>m. rhumbDestinationPoint p (VNum (Fin b)) (VStr (ds @ c # rest)) = Inr m
                \<and> f_lat m
                    = (let lat2 = la * pi / 180
                                  + real (digits_value 10 ds) / r * cos (b * pi / 180)
                       in Fin ((if pi / 2 < \<bar>lat2\<bar>
                                then (if 0 < lat2 then pi - lat2 else - (pi - lat2))
                                else lat2) * 180 / pi)))
         \<and> (\<exists>m. destinationPoint p (VNum (Fin b)) (VStr (ds @ c # rest)) = Inr m
                \<and> f_lat m = NaN \<and> f_lon m = VNum NaN)
         \<and> (\<exists>m. destinationPoint p (VNum (Fin b)) (VStr ds) = Inr m
                \<and> f_lat m
                    = Fin (arcsin (sin (la * pi / 180) * cos (real (digits_value 10 ds) / r)
                                   + cos (la * pi / 180) * sin (real (digits_value 10 ds) / r)
                                     * cos (b * pi / 180)) * 180 / pi))"
proof -
  let ?v = "real (digits_value 10 ds)"
  have c1: "c \<notin> set ''.eE''" using assms(9) by auto
  have pf: "parseFloat (VStr (ds @ c # rest)) = Fin ?v"
    using assms(5,6,7) c1 by (rule parseFloat_prefix)
  have na: "numeric_arg (VStr (ds @ c # rest)) = NaN"
    using assms(5-9) by (rule numeric_arg_prefix)
  have pd: "parseFloat (VStr ds) = Fin ?v" using assms(5,6) by (rule parseFloat_digits)
  have nd: "numeric_arg (VStr ds) = Fin ?v" using assms(5,6) by (rule numeric_arg_digits)
  have 1: "rhumbDestinationPoint p brng (VStr t)
           = rhumbDestinationPoint p brng (VNum (parseFloat (VStr t)))" for brng t
    by (simp only: rhumbDestinationPoint_def parseFloat.simps(1))
  have 2: "destinationPoint p brng (VStr t)
           = destinationPoint p brng (VNum (numeric_arg (VStr t)))" for brng t
    by (simp only: destinationPoint_def numeric_arg.simps(1))
  have 3: "\<exists>m. rhumbDestinationPoint p (VNum (Fin b)) (VStr (ds @ c # rest)) = Inr m
                \<and> f_lat m
                    = (let lat2 = la * pi / 180 + ?v / r * cos (b * pi / 180)
                       in Fin ((if pi / 2 < \<bar>lat2\<bar>
                                then (if 0 < lat2 then pi - lat2 else - (pi - lat2))
                                else lat2) * 180 / pi))"
    unfolding 1 pf using assms(1-4)
    by (simp add: rhumbDestinationPoint_def toRad_Fin toDeg_Fin Math_PI_def num_gt_def
        num_sub_def LngLat_numbers Let_def)
  have 4: "\<exists>m. destinationPoint p (VNum (Fin b)) (VStr (ds @ c # rest)) = Inr m
                \<and> f_lat m = NaN \<and> f_lon m = VNum NaN"
    unfolding 2 na using assms(1-4)
    by (simp add: destinationPoint_def toRad_Fin toDeg_def LngLat_numbers Let_def num_sub_def
        Math_PI_def NaN_absorbs)
  have bnd: "- 1 \<le> sin (la * pi / 180) * cos (?v / r)
                    + cos (la * pi / 180) * sin (?v / r) * cos (b * pi / 180)"
       "sin (la * pi / 180) * cos (?v / r)
          + cos (la * pi / 180) * sin (?v / r) * cos (b * pi / 180) \<le> 1"
    using asin_argument_bounded[of "la * pi / 180" "?v / r" "b * pi / 180"] by linarith+
  have 5: "\<exists>m. destinationPoint p (VNum (Fin b)) (VStr ds) = Inr m
                \<and> f_lat m
                    = Fin (arcsin (sin (la * pi / 180) * cos (?v / r)
                                   + cos (la * pi / 180) * sin (?v / r)
                                     * cos (b * pi / 180)) * 180 / pi)"
    unfolding 2 nd using assms(1-4) bnd
    by (simp add: destinationPoint_def toRad_Fin toDeg_Fin LngLat_numbers Let_def num_sub_def
        Math_PI_def)
  from 1 2 pf na pd nd 3 4 5 show ?thesis by blast
qed

theorem destination_distance_parsing_witness:
  "rhumbDestinationPoint \<lparr>f_lat = Fin 51.5136, f_lon = VNum (Fin (- 0.0983)), f_radius = Fin 6371\<rparr>
       (VNum (Fin 0)) (VStr ''12abc'')
     = rhumbDestinationPoint
         \<lparr>f_lat = Fin 51.5136, f_lon = VNum (Fin (- 0.0983)), f_radius = Fin 6371\<rparr>
         (VNum (Fin 0)) (VNum (parseFloat (VStr ''12abc'')))
   \<and> parseFloat (VStr ''12abc'') = Fin 12
   \<and> numeric_arg (VStr ''12abc'') = NaN
   \<and> numeric_arg (VStr ''12'') = Fin 12
   \<and> (\<exists>m. rhumbDestinationPoint
             \<lparr>f_lat = Fin 51.5136, f_lon = VNum (Fin (- 0.0983)), f_radius = Fin 6371\<rparr>
             (VNum (Fin 0)) (VStr ''12abc'') = Inr m
          \<and> f_lat m
              = (let lat2 = 51.5136 * pi / 180 + 12 / 6371 * cos (0 * pi / 180)
                 in Fin ((if pi / 2 < \<bar>lat2\<bar>
                          then (if 0 < lat2 then pi - lat2 else - (pi - lat2))
                          else lat2) * 180 / pi)))
   \<and> (\<exists>m. destinationPoint
             \<lparr>f_lat = Fin 51.5136, f_lon = VNum (Fin (- 0.0983)), f_radius = Fin 6371\<rparr>
             (VNum (Fin 0)) (VStr ''12abc'') = Inr m
          \<and> f_lat m = NaN \<and> f_lon m = VNum NaN)
   \<and> (\<exists>m. destinationPoint
             \<lparr>f_lat = Fin 51.5136, f_lon = VNum (Fin (- 0.0983)), f_radius = Fin 6371\<rparr>
             (VNum (Fin 0)) (VStr ''12'') = Inr m
          \<and> f_lat m
              = Fin (arcsin (sin (51.5136 * pi / 180) * cos (12 / 6371)
                             + cos (51.5136 * pi / 180) * sin (12 / 6371) * cos (0 * pi / 180))
                     * 180 / pi))"
proof -
  let ?A = "\<lparr>f_lat = Fin 51.5136, f_lon = VNum (Fin (- 0.0983)), f_radius = Fin 6371\<rparr>"
  have dv: "real (digits_value 10 ''12'') = 12"
    by (simp add: digits_value_def digit_value_def digit_table_def)
  have s: "''12'' @ CHR ''a'' # ''bc'' = ''12abc''" by simp
  note h = destination_distance_parsing
    [where p = ?A and la = "51.5136" and lo = "Fin (- 0.0983)" and r = 6371
       and ds = "''12''" and c = "CHR ''a''" and rest = "''bc''" and b = 0
       and brng = "VNum (Fin 0)" and t = "''12abc''", unfolded s dv]
  have hyps: "f_lat ?A = Fin 51.5136" "f_lon ?A = VNum (Fin (- 0.0983))"
    "f_radius ?A = Fin 6371" "(6371::real) \<noteq> 0" "''12'' \<noteq> []"
    "\<forall>x\<in>set ''12''. is_digit 10 x" "\<not> is_digit 10 (CHR ''a'')"
    "\<not> is_space (CHR ''a'')" "CHR ''a'' \<notin> set ''.eExXoObB''"
    by (simp_all add: is_digit_10_iff is_space_def)
  from h[OF hyps] show ?thesis by blast
qed

end
